theory Spec2Isabelle
  imports Main
begin

section \<open>Caller-supplied functions\<close>

text \<open>
  Every method of the two containers is a single \<^verbatim>\<open>return\<close>; the only effects a call can
  have are those of the functions the caller hands in (\<^verbatim>\<open>fn\<close>, \<^verbatim>\<open>handler\<close>, the two
  handlers of \<^verbatim>\<open>matchResult\<close>). Whether such a function is invoked, and with which
  argument, is part of what the library promises, so a caller-supplied function is
  modelled with explicit state passing: it takes the caller's world \<open>'s\<close> and returns
  its result together with the world it leaves behind. A method that returns the world
  it was given, for every possible callback, has not invoked the callback. No method
  raises by itself; a callback is taken to return (one that throws is not modelled).
\<close>

type_synonym ('a, 's) call = "'s \<Rightarrow> 'a \<times> 's"

text \<open>A pure function seen as a callback: it returns its result and leaves the world alone.\<close>

definition pureFn :: "('a \<Rightarrow> 'b) \<Rightarrow> 'a \<Rightarrow> ('b, 's) call" where
  "pureFn f x = (\<lambda>s. (f x, s))"

text \<open>
  Program order: \<^verbatim>\<open>a.m1(...).m2(...)\<close> evaluates the first call, then invokes the second
  method on its result in the world the first call left behind.
\<close>

definition andThen :: "('a, 's) call \<Rightarrow> ('a \<Rightarrow> ('b, 's) call) \<Rightarrow> ('b, 's) call" where
  "andThen first next = (\<lambda>s. case first s of (x, s') \<Rightarrow> next x s')"

section \<open>The Maybe container\<close>

text \<open>
  \<^verbatim>\<open>class Just<A> implements Maybe<A>\<close> holds one private field; \<^verbatim>\<open>class Nothing<A>\<close>
  holds none. The interface \<^verbatim>\<open>Maybe<A>\<close> is the sum of the two classes, and each method
  of the interface is one function with one equation per class.
\<close>

datatype 'a Maybe = Just 'a | Nothing

definition Just_of :: "'a \<Rightarrow> 'a Maybe" where
  "Just_of v = Just v"

definition Nothing_of :: "'a Maybe" where
  "Nothing_of = Nothing"

primrec isJust :: "'a Maybe \<Rightarrow> bool" where
  "isJust (Just v) = True"
| "isJust Nothing = False"

primrec flatMapMaybe :: "('a \<Rightarrow> ('b Maybe, 's) call) \<Rightarrow> 'a Maybe \<Rightarrow> ('b Maybe, 's) call" where
  "flatMapMaybe fn (Just v) = fn v"
| "flatMapMaybe fn Nothing = (\<lambda>s. (Nothing, s))"

primrec mapMaybe :: "('a \<Rightarrow> ('b, 's) call) \<Rightarrow> 'a Maybe \<Rightarrow> ('b Maybe, 's) call" where
  "mapMaybe fn (Just v) = (\<lambda>s. case fn v s of (r, s') \<Rightarrow> (Just_of r, s'))"
| "mapMaybe fn Nothing = (\<lambda>s. (Nothing, s))"

primrec orElseMaybe :: "('a Maybe, 's) call \<Rightarrow> 'a Maybe \<Rightarrow> ('a Maybe, 's) call" where
  "orElseMaybe handler (Just v) = (\<lambda>s. (Just v, s))"
| "orElseMaybe handler Nothing = handler"

primrec getOrElseMaybe :: "'a \<Rightarrow> 'a Maybe \<Rightarrow> 'a" where
  "getOrElseMaybe fallback (Just v) = v"
| "getOrElseMaybe fallback Nothing = fallback"

subsection \<open>Conversion from a nullable value\<close>

text \<open>
  The parameter of \<^verbatim>\<open>fromNullable\<close> has type \<^verbatim>\<open>T | null\<close> and the body also tests for
  \<^verbatim>\<open>undefined\<close>: at run time it is \<^verbatim>\<open>null\<close>, \<^verbatim>\<open>undefined\<close> or a value of \<^verbatim>\<open>T\<close>.
  The container built by \<^verbatim>\<open>Just.of(value)\<close> holds that run-time value as it is, so the
  result is a container of nullable values.
\<close>

datatype 'a nullable = Null | Undefined | Value 'a

definition fromNullable :: "'a nullable \<Rightarrow> 'a nullable Maybe" where
  "fromNullable v = (if v = Null \<or> v = Undefined then Just_of v else Nothing_of)"

section \<open>The Result container\<close>

text \<open>
  \<^verbatim>\<open>class Ok<TOk, TErr>\<close> and \<^verbatim>\<open>class Err<TOk, TErr>\<close> each hold one public read-only
  field named \<^verbatim>\<open>value\<close>: the success payload in the first, the error in the second.
\<close>

datatype ('ok, 'err) Result = Ok 'ok | Err 'err

definition Ok_of :: "'ok \<Rightarrow> ('ok, 'err) Result" where
  "Ok_of v = Ok v"

definition Err_of :: "'err \<Rightarrow> ('ok, 'err) Result" where
  "Err_of v = Err v"

primrec isOk :: "('ok, 'err) Result \<Rightarrow> bool" where
  "isOk (Ok v) = True"
| "isOk (Err v) = True"

primrec mapResult ::
  "('ok \<Rightarrow> ('uok, 's) call) \<Rightarrow> ('ok, 'err) Result \<Rightarrow> (('uok, 'err) Result, 's) call" where
  "mapResult fn (Ok v) = (\<lambda>s. case fn v s of (r, s') \<Rightarrow> (Ok_of r, s'))"
| "mapResult fn (Err v) = (\<lambda>s. (Err v, s))"

primrec flatMapResult ::
  "('ok \<Rightarrow> (('uok, 'err) Result, 's) call) \<Rightarrow> ('ok, 'err) Result \<Rightarrow>
   (('uok, 'err) Result, 's) call" where
  "flatMapResult fn (Ok v) = fn v"
| "flatMapResult fn (Err v) = (\<lambda>s. (Err v, s))"

primrec orElseResult ::
  "('err \<Rightarrow> (('ok, 'err) Result, 's) call) \<Rightarrow> ('ok, 'err) Result \<Rightarrow>
   (('ok, 'err) Result, 's) call" where
  "orElseResult fn (Ok v) = (\<lambda>s. (Ok v, s))"
| "orElseResult fn (Err v) = fn v"

primrec getOrElseResult :: "'ok \<Rightarrow> ('ok, 'err) Result \<Rightarrow> 'ok" where
  "getOrElseResult fallback (Ok v) = v"
| "getOrElseResult fallback (Err v) = fallback"

subsection \<open>matchResult\<close>

text \<open>
  \<^verbatim>\<open>matchResult\<close> reads the field \<^verbatim>\<open>value\<close> through the casts
  \<^verbatim>\<open>(result as Ok<TOk, TErr>).value\<close> and \<^verbatim>\<open>(result as Err<TOk, TErr>).value\<close>. A cast
  is erased when the program is compiled: at run time either expression reads the one
  field of whichever object \<^verbatim>\<open>result\<close> is, and hands it to the chosen handler. Both
  handlers therefore take a run-time value of one type \<open>'v\<close>, the type of what either
  class may hold (for a program with distinct \<^verbatim>\<open>TOk\<close> and \<^verbatim>\<open>TErr\<close>, their sum).
\<close>

primrec valueOf :: "('v, 'v) Result \<Rightarrow> 'v" where
  "valueOf (Ok v) = v"
| "valueOf (Err v) = v"

record ('v, 't, 's) matcher =
  match_Ok :: "'v \<Rightarrow> ('t, 's) call"
  match_Err :: "'v \<Rightarrow> ('t, 's) call"

definition matchResult :: "('v, 't, 's) matcher \<Rightarrow> ('v, 'v) Result \<Rightarrow> ('t, 's) call" where
  "matchResult match result =
     (if isOk result then match_Ok match (valueOf result)
      else match_Err match (valueOf result))"

text \<open>
  A pair of handlers that record their own invocations: the caller's world is the list
  of invocations made so far, and each handler appends which of the two it is and the
  argument it received, then returns what the plain handler returns.
\<close>

datatype 'v invocation = OkHandler 'v | ErrHandler 'v

definition spyOn :: "('v \<Rightarrow> 't) \<Rightarrow> ('v \<Rightarrow> 't) \<Rightarrow> ('v, 't, 'v invocation list) matcher" where
  "spyOn onOk onErr =
     \<lparr>match_Ok = (\<lambda>v log. (onOk v, log @ [OkHandler v])),
      match_Err = (\<lambda>v log. (onErr v, log @ [ErrHandler v]))\<rparr>"

section \<open>The list example\<close>

text \<open>
  \<^verbatim>\<open>const safeHead = (list: number[]) => fromNullable(list[0]);\<close>
  \<^verbatim>\<open>const safeHeadSquare = safeHead(list).map(square).getOrElse(0);\<close>

  Reading index 0 of an empty array gives \<^verbatim>\<open>undefined\<close>; it does not raise.
\<close>

definition index0 :: "'a list \<Rightarrow> 'a nullable" where
  "index0 list = (case list of [] \<Rightarrow> Undefined | x # _ \<Rightarrow> Value x)"

definition safeHead :: "'a list \<Rightarrow> 'a nullable Maybe" where
  "safeHead list = fromNullable (index0 list)"

text \<open>
  The squaring function \<^verbatim>\<open>x => x*x\<close> receives whatever the container holds. The numbers
  of the example are whole numbers, held exactly by a double, so a number is an integer
  or \<^verbatim>\<open>NaN\<close>. The operator \<^verbatim>\<open>*\<close> converts its operands to numbers first: \<^verbatim>\<open>null\<close>
  becomes 0 and \<^verbatim>\<open>undefined\<close> becomes \<^verbatim>\<open>NaN\<close>; a product with \<^verbatim>\<open>NaN\<close> is \<^verbatim>\<open>NaN\<close>.
\<close>

datatype number = Num int | NaN

primrec toNumber :: "number nullable \<Rightarrow> number" where
  "toNumber Null = Num 0"
| "toNumber Undefined = NaN"
| "toNumber (Value n) = n"

fun multiply :: "number \<Rightarrow> number \<Rightarrow> number" where
  "multiply (Num a) (Num b) = Num (a * b)"
| "multiply _ _ = NaN"

definition square :: "number nullable \<Rightarrow> number nullable" where
  "square x = Value (multiply (toNumber x) (toNumber x))"

definition safeHeadSquare :: "number list \<Rightarrow> (number nullable, 's) call" where
  "safeHeadSquare list =
     andThen (mapMaybe (pureFn square) (safeHead list))
       (pureFn (getOrElseMaybe (Value (Num 0))))"

section \<open>Evaluation rules\<close>

lemma pureFn_apply: "pureFn f x s = (f x, s)"
  by (simp add: pureFn_def)

lemma andThen_apply: "andThen first next s = (case first s of (x, s') \<Rightarrow> next x s')"
  by (simp add: andThen_def)

lemma fromNullable_Null: "fromNullable Null = Just Null"
  by (simp add: fromNullable_def Just_of_def)

lemma fromNullable_Undefined: "fromNullable Undefined = Just Undefined"
  by (simp add: fromNullable_def Just_of_def)

lemma fromNullable_Value: "fromNullable (Value x) = Nothing"
  by (simp add: fromNullable_def Nothing_of_def)

lemma matchResult_Ok: "matchResult match (Ok v) = match_Ok match v"
  by (simp add: matchResult_def)

lemma matchResult_Err: "matchResult match (Err e) = match_Ok match e"
  by (simp add: matchResult_def)

lemma flatMapMaybe_assoc:
  "andThen (flatMapMaybe f c) (flatMapMaybe g) =
   flatMapMaybe (\<lambda>x. andThen (f x) (flatMapMaybe g)) c"
proof (cases c)
  case (Just v)
  then show ?thesis by (simp add: andThen_def)
next
  case Nothing
  then show ?thesis by (simp add: andThen_def)
qed

lemma flatMapResult_assoc:
  "andThen (flatMapResult f r) (flatMapResult g) =
   flatMapResult (\<lambda>x. andThen (f x) (flatMapResult g)) r"
proof (cases r)
  case (Ok v)
  then show ?thesis by (simp add: andThen_def)
next
  case (Err e)
  then show ?thesis by (simp add: andThen_def)
qed

section \<open>The conversion from a nullable value\<close>

text \<open>
  Claim C1. The claim: a real value converts to a \<^verbatim>\<open>Just\<close> holding it, and \<^verbatim>\<open>null\<close> or
  \<^verbatim>\<open>undefined\<close> converts to \<^verbatim>\<open>Nothing\<close>. The condition of \<^verbatim>\<open>fromNullable\<close> is the
  other way round: the real value 5 converts to \<^verbatim>\<open>Nothing\<close> (\<^verbatim>\<open>isJust()\<close> is false,
  \<^verbatim>\<open>getOrElse(0)\<close> is 0), and \<^verbatim>\<open>undefined\<close> and \<^verbatim>\<open>null\<close> convert to a \<^verbatim>\<open>Just\<close> holding
  the sentinel (\<^verbatim>\<open>isJust()\<close> is true, \<^verbatim>\<open>getOrElse(0)\<close> is the sentinel).
\<close>

theorem fromNullable_inverted:
  "fromNullable (Value (5::int)) = Nothing \<and>
   \<not> isJust (fromNullable (Value (5::int))) \<and>
   getOrElseMaybe (Value 0) (fromNullable (Value (5::int))) = Value 0 \<and>
   fromNullable (Undefined :: int nullable) = Just Undefined \<and>
   isJust (fromNullable (Undefined :: int nullable)) \<and>
   getOrElseMaybe (Value 0) (fromNullable (Undefined :: int nullable)) = Undefined \<and>
   fromNullable (Null :: int nullable) = Just Null \<and>
   isJust (fromNullable (Null :: int nullable)) \<and>
   getOrElseMaybe (Value 0) (fromNullable (Null :: int nullable)) = Null"
  by (simp add: fromNullable_Null fromNullable_Undefined fromNullable_Value)

text \<open>
  Claim C10. The claim: \<^verbatim>\<open>fromNullable(null)\<close> and \<^verbatim>\<open>fromNullable(undefined)\<close> cannot be
  told apart. In the code both are \<^verbatim>\<open>Just\<close> containers (\<^verbatim>\<open>isJust()\<close> is true for both),
  one holding \<^verbatim>\<open>null\<close> and the other \<^verbatim>\<open>undefined\<close>: \<^verbatim>\<open>getOrElse(0)\<close> returns \<^verbatim>\<open>null\<close>
  from the first and \<^verbatim>\<open>undefined\<close> from the second, and \<^verbatim>\<open>map(x => x === null)\<close> gives
  \<^verbatim>\<open>Just(true)\<close> on the first and \<^verbatim>\<open>Just(false)\<close> on the second.
\<close>

theorem fromNullable_null_undefined_differ:
  "isJust (fromNullable (Null :: int nullable)) \<and>
   isJust (fromNullable (Undefined :: int nullable)) \<and>
   getOrElseMaybe (Value 0) (fromNullable (Null :: int nullable)) = Null \<and>
   getOrElseMaybe (Value 0) (fromNullable (Undefined :: int nullable)) = Undefined \<and>
   mapMaybe (pureFn (\<lambda>x. x = Null)) (fromNullable (Null :: int nullable)) () = (Just True, ()) \<and>
   mapMaybe (pureFn (\<lambda>x. x = Null)) (fromNullable (Undefined :: int nullable)) () = (Just False, ()) \<and>
   fromNullable (Null :: int nullable) \<noteq> fromNullable Undefined"
  by (simp add: fromNullable_Null fromNullable_Undefined pureFn_apply Just_of_def)

text \<open>
  Claim C4. The claim: \<^verbatim>\<open>safeHead(list).map(x => x*x).getOrElse(0)\<close> is 16 for the list
  \<^verbatim>\<open>[4]\<close> and 0 for the empty list. In the code the head 4 converts to \<^verbatim>\<open>Nothing\<close>, so
  the result is the fallback 0; the empty list has head \<^verbatim>\<open>undefined\<close>, which converts to
  \<^verbatim>\<open>Just(undefined)\<close>, so the squaring function runs on \<^verbatim>\<open>undefined\<close> and the result is
  \<^verbatim>\<open>NaN\<close>.
\<close>

theorem safeHeadSquare_evaluated:
  "safeHeadSquare [Num 4] () = (Value (Num 0), ()) \<and>
   safeHeadSquare [] () = (Value NaN, ())"
  by (simp add: safeHeadSquare_def safeHead_def index0_def fromNullable_Undefined
      fromNullable_Value andThen_apply pureFn_apply Just_of_def square_def)

section \<open>Transforming and chaining\<close>

text \<open>
  Claim C5. For every pure function \<open>fn\<close>, \<^verbatim>\<open>Just(v).map(fn)\<close> is \<^verbatim>\<open>Just(fn(v))\<close>; and
  \<^verbatim>\<open>Nothing.map(g)\<close> is \<^verbatim>\<open>Nothing\<close> with \<open>g\<close> never invoked: whatever \<open>g\<close> would do to
  the caller's world, the world comes back as it went in.
\<close>

theorem map_Just_Nothing:
  "mapMaybe (pureFn fn) (Just v) s = (Just (fn v), s) \<and>
   mapMaybe g Nothing s = (Nothing, s)"
  by (simp add: pureFn_apply Just_of_def)

text \<open>
  Claim C6. Chaining with \<^verbatim>\<open>flatMap\<close> is associative for both containers:
  \<^verbatim>\<open>c.flatMap(f).flatMap(g)\<close> equals \<^verbatim>\<open>c.flatMap(x => f(x).flatMap(g))\<close>. It is proved
  for all callbacks \<open>f\<close> and \<open>g\<close>, with or without effects: the two sides return the same
  container and leave the same world. The pure functions of the claim are the
  callbacks \<open>pureFn f\<close>.
\<close>

theorem flatMap_associative:
  "andThen (flatMapMaybe f c) (flatMapMaybe g) s =
     flatMapMaybe (\<lambda>x. andThen (f x) (flatMapMaybe g)) c s \<and>
   andThen (flatMapResult f' r) (flatMapResult g') s =
     flatMapResult (\<lambda>x. andThen (f' x) (flatMapResult g')) r s"
  by (simp add: flatMapMaybe_assoc flatMapResult_assoc)

text \<open>
  Claim C9. For every error \<open>e\<close> and every callback \<open>fn\<close>, \<^verbatim>\<open>Err(e).map(fn)\<close> and
  \<^verbatim>\<open>Err(e).flatMap(fn)\<close> each return an \<^verbatim>\<open>Err\<close> holding the same \<open>e\<close>, and \<open>fn\<close> is not
  invoked: the caller's world comes back as it went in.
\<close>

theorem Err_map_flatMap_unchanged:
  "mapResult fn (Err e) s = (Err e, s) \<and>
   flatMapResult fn' (Err e) s = (Err e, s)"
  by simp

section \<open>Falling back\<close>

text \<open>
  Claim C7. \<^verbatim>\<open>orElse\<close> on the good variant returns the container itself and does not
  invoke its argument (the world is returned as given, whatever the argument is);
  on the bad variant \<^verbatim>\<open>Nothing.orElse(supplier)\<close> is \<^verbatim>\<open>supplier()\<close> and
  \<^verbatim>\<open>Err(e).orElse(fn)\<close> is \<^verbatim>\<open>fn(e)\<close>.
\<close>

theorem orElse_short_circuits:
  "orElseMaybe supplier (Just v) s = (Just v, s) \<and>
   orElseResult fn (Ok w) s = (Ok w, s) \<and>
   orElseMaybe supplier Nothing s = supplier s \<and>
   orElseResult fn (Err e) s = fn e s"
  by simp

text \<open>
  Claim C8. For both containers and every fallback \<open>d\<close>, \<^verbatim>\<open>getOrElse(d)\<close> returns the
  held value on the good variant and \<open>d\<close> on the bad one, whatever error an \<^verbatim>\<open>Err\<close>
  holds.
\<close>

theorem getOrElse_value_or_fallback:
  "getOrElseMaybe d (Just v) = v \<and>
   getOrElseMaybe d Nothing = d \<and>
   getOrElseResult d' (Ok w) = w \<and>
   getOrElseResult d' (Err e) = d'"
  by simp

section \<open>Discriminating and matching a Result\<close>

text \<open>
  Claim C2. The claim: \<^verbatim>\<open>isOk()\<close> is true on \<^verbatim>\<open>Ok\<close> and false on \<^verbatim>\<open>Err\<close>. In the code
  \<^verbatim>\<open>Err.isOk()\<close> returns true as well: \<^verbatim>\<open>isOk()\<close> is true on every container.
\<close>

theorem isOk_always_true:
  "isOk (Ok v) \<and> isOk (Err e)"
  by simp

text \<open>
  Claim C3. The claim: \<^verbatim>\<open>matchResult\<close> invokes the \<^verbatim>\<open>Ok\<close> handler once on an \<^verbatim>\<open>Ok\<close> and
  the \<^verbatim>\<open>Err\<close> handler once on an \<^verbatim>\<open>Err\<close>. In the code \<^verbatim>\<open>isOk()\<close> is true on an \<^verbatim>\<open>Err\<close>
  too, so the \<^verbatim>\<open>Ok\<close> handler is the one invoked, once, on the error. With recording
  handlers and the containers \<^verbatim>\<open>Ok(5)\<close> and \<^verbatim>\<open>Err('X')\<close>: the first call records one
  invocation of the \<^verbatim>\<open>Ok\<close> handler with 5; the second records one invocation of the
  \<^verbatim>\<open>Ok\<close> handler with \<^verbatim>\<open>'X'\<close> and none of the \<^verbatim>\<open>Err\<close> handler, and returns the \<^verbatim>\<open>Ok\<close>
  handler's result.
\<close>

theorem matchResult_Err_runs_Ok_handler:
  "matchResult (spyOn (\<lambda>_. ''onSuccess'') (\<lambda>_. ''onFailure''))
     (Ok (Inl 5) :: (int + string, int + string) Result) []
     = (''onSuccess'', [OkHandler (Inl 5)]) \<and>
   matchResult (spyOn (\<lambda>_. ''onSuccess'') (\<lambda>_. ''onFailure''))
     (Err (Inr ''X'') :: (int + string, int + string) Result) []
     = (''onSuccess'', [OkHandler (Inr ''X'')])"
  by (simp add: matchResult_Ok matchResult_Err spyOn_def)

end
